theory Spec2Isabelle
  imports Main
begin

section \<open>Data model of \<^verbatim>\<open>src/index.ts\<close>\<close>

text \<open>
  A JavaScript string is modelled as a \<^typ>\<open>string\<close>, one \<^typ>\<open>char\<close> per code unit,
  and a JavaScript number that only ever counts characters as a \<^typ>\<open>nat\<close>.
  \<^verbatim>\<open>Position\<close>, \<^verbatim>\<open>LexedItem\<close> and \<^verbatim>\<open>ParseError\<close> share their three position fields,
  so the latter two extend the first.  The field \<^verbatim>\<open>token\<close> of a \<^verbatim>\<open>ParseError\<close> is
  \<^verbatim>\<open>tokens[0]\<close>, which is \<^verbatim>\<open>undefined\<close> for an item without token parts: it is an option.
\<close>

record Position =
  index :: nat
  line :: nat
  inlineIndex :: nat

record LexedItem = Position +
  tokens :: "string list"

record ParseError = Position +
  message :: string
  token :: "string option"

section \<open>The lexer: \<^verbatim>\<open>createSimpleLexer\<close>\<close>

text \<open>
  The configuration object.  A regular expression is only ever applied to a
  one-character string (\<^verbatim>\<open>separatorRegex.test(char)\<close>), so it is taken as a predicate
  on characters; a pattern that carries state between calls (the \<^verbatim>\<open>g\<close> and \<^verbatim>\<open>y\<close> flags)
  is outside the model.  Optional fields are options.
\<close>

record config =
  separatorRegex :: "char \<Rightarrow> bool"
  newlineRegex :: "(char \<Rightarrow> bool) option"
  useQuote :: bool
  useEscape :: bool
  escapeChar :: "string option"

text \<open>\<^verbatim>\<open>defaultNewlineRegex = /^\r?\n$/\<close> on a one-character string: only a line feed.\<close>

definition defaultNewlineRegex :: "char \<Rightarrow> bool" where
  "defaultNewlineRegex c = (c = CHR 0x0A)"

text \<open>\<^verbatim>\<open>newlineRegex = newlineRegex || defaultNewlineRegex\<close>\<close>

definition newline_of :: "config \<Rightarrow> char \<Rightarrow> bool" where
  "newline_of cfg = (case newlineRegex cfg of None \<Rightarrow> defaultNewlineRegex | Some r \<Rightarrow> r)"

text \<open>
  \<^verbatim>\<open>escapeChar || "\\"\<close>: an absent or empty \<^verbatim>\<open>escapeChar\<close> is falsy and gives the
  backslash.  The comparison \<^verbatim>\<open>char === (escapeChar || "\\")\<close> is between strings, the left
  one of length one.
\<close>

definition escape_of :: "config \<Rightarrow> string" where
  "escape_of cfg =
     (case escapeChar cfg of None \<Rightarrow> [CHR 0x5C]
      | Some e \<Rightarrow> if e = [] then [CHR 0x5C] else e)"

text \<open>
  The local variables of the generator: \<^verbatim>\<open>token\<close> (here \<open>tokenBuf\<close>, the name \<open>token\<close>
  being the field of \<^verbatim>\<open>ParseError\<close>), \<^verbatim>\<open>isQuoting\<close>, \<^verbatim>\<open>isEscaping\<close>, and the three
  counters \<^verbatim>\<open>index\<close>, \<^verbatim>\<open>line\<close>, \<^verbatim>\<open>inlineIndex\<close>.
\<close>

record lexer_state = Position +
  tokenBuf :: string
  isQuoting :: bool
  isEscaping :: bool

definition init_state :: lexer_state where
  "init_state = \<lparr>index = 0, line = 0, inlineIndex = 0,
                  tokenBuf = [], isQuoting = False, isEscaping = False\<rparr>"

text \<open>
  An emitted item is tagged with the \<^verbatim>\<open>yield\<close> statement it comes from: the two of the
  separator branch (lines 203 and 212) or the one after the character loop (line 224).
  The generator itself yields the bare items; the tag is only used to speak about
  the items of one origin.
\<close>

datatype origin = Separator_branch | Chunk_end

text \<open>
  The branch chain of lines 189 to 215, on the state whose \<^verbatim>\<open>index\<close> and
  \<^verbatim>\<open>inlineIndex\<close> are already incremented.  It gives the new state and the items yielded.
\<close>

definition branch :: "config \<Rightarrow> lexer_state \<Rightarrow> char \<Rightarrow> lexer_state \<times> LexedItem list" where
  "branch cfg s char =
     (if useEscape cfg \<and> isEscaping s then
        (s\<lparr>tokenBuf := tokenBuf s @ [char], isEscaping := False\<rparr>, [])
      else if useEscape cfg \<and> [char] = escape_of cfg then
        (s\<lparr>isEscaping := True\<rparr>, [])
      else if useQuote cfg \<and> isQuoting s then
        (if char = CHR 0x22 then
           (s\<lparr>isQuoting := False, tokenBuf := tokenBuf s @ [CHR 0x22]\<rparr>, [])
         else
           (s\<lparr>tokenBuf := tokenBuf s @ [char]\<rparr>, []))
      else if separatorRegex cfg char then
        (s\<lparr>tokenBuf := []\<rparr>,
         (if tokenBuf s \<noteq> [] then
            [\<lparr>index = index s - 1, line = line s, inlineIndex = inlineIndex s - 1,
              tokens = [tokenBuf s]\<rparr>]
          else [])
         @ [\<lparr>index = index s, line = line s, inlineIndex = inlineIndex s,
              tokens = [ [char] ]\<rparr>])
      else
        (s\<lparr>tokenBuf := tokenBuf s @ [char]\<rparr>, []))"

text \<open>One iteration of the character loop (lines 184 to 220).\<close>

definition lex_char :: "config \<Rightarrow> lexer_state \<Rightarrow> char \<Rightarrow> lexer_state \<times> LexedItem list" where
  "lex_char cfg s0 char =
     (case branch cfg (s0\<lparr>index := index s0 + 1, inlineIndex := inlineIndex s0 + 1\<rparr>) char of
        (s, out) \<Rightarrow>
          (if newline_of cfg char then s\<lparr>line := line s + 1, inlineIndex := 0\<rparr> else s, out))"

text \<open>The character loop over one chunk (line 183).\<close>

fun lex_chunk :: "config \<Rightarrow> lexer_state \<Rightarrow> string \<Rightarrow> lexer_state \<times> LexedItem list" where
  "lex_chunk cfg s [] = (s, [])"
| "lex_chunk cfg s (c # cs) =
     (case lex_char cfg s c of
        (s', out) \<Rightarrow> (case lex_chunk cfg s' cs of (s'', out') \<Rightarrow> (s'', out @ out')))"

text \<open>The flush after the character loop (lines 223 to 225); the state is not touched.\<close>

definition flush :: "lexer_state \<Rightarrow> LexedItem list" where
  "flush s =
     (if tokenBuf s \<noteq> [] then
        [\<lparr>index = index s, line = line s, inlineIndex = inlineIndex s, tokens = [tokenBuf s]\<rparr>]
      else [])"

text \<open>
  The loop over the chunks of the stream (line 181), a finite list of decoded strings.
  \<open>lex_events\<close> gives every yielded item with its origin, \<open>lex_stream\<close> the items as
  the generator yields them.
\<close>

fun lex_events :: "config \<Rightarrow> lexer_state \<Rightarrow> string list \<Rightarrow> (origin \<times> LexedItem) list" where
  "lex_events cfg s [] = []"
| "lex_events cfg s (chunk # stream) =
     (case lex_chunk cfg s chunk of
        (s', out) \<Rightarrow>
          map (Pair Separator_branch) out @ map (Pair Chunk_end) (flush s')
          @ lex_events cfg s' stream)"

fun lex_stream :: "config \<Rightarrow> lexer_state \<Rightarrow> string list \<Rightarrow> LexedItem list" where
  "lex_stream cfg s [] = []"
| "lex_stream cfg s (chunk # stream) =
     (case lex_chunk cfg s chunk of
        (s', out) \<Rightarrow> out @ flush s' @ lex_stream cfg s' stream)"

definition createSimpleLexer :: "config \<Rightarrow> string list \<Rightarrow> LexedItem list" where
  "createSimpleLexer cfg stream = lex_stream cfg init_state stream"

text \<open>The state after the character loop has run over a run of characters.\<close>

definition state_after :: "config \<Rightarrow> lexer_state \<Rightarrow> string \<Rightarrow> lexer_state" where
  "state_after cfg s chunk = fst (lex_chunk cfg s chunk)"

text \<open>The items of the separator branch, without the tags.\<close>

definition separator_items :: "(origin \<times> LexedItem) list \<Rightarrow> LexedItem list" where
  "separator_items evs = map snd (filter (\<lambda>e. fst e = Separator_branch) evs)"

text \<open>Configurations used in the concrete cases.\<close>

definition comma_or_space :: "char \<Rightarrow> bool" where
  "comma_or_space c = (c = CHR '','' \<or> c = CHR '' '' \<or> c = CHR 0x09 \<or> c = CHR 0x0A \<or> c = CHR 0x0D)"

definition quote_config :: config where
  "quote_config = \<lparr>separatorRegex = comma_or_space, newlineRegex = None,
                    useQuote = True, useEscape = False, escapeChar = None\<rparr>"

definition escape_config :: config where
  "escape_config = \<lparr>separatorRegex = (\<lambda>c. c = CHR '',''), newlineRegex = None,
                     useQuote = False, useEscape = True, escapeChar = Some [CHR 0x5C]\<rparr>"

definition plain_config :: config where
  "plain_config = \<lparr>separatorRegex = (\<lambda>c. c = CHR '',''), newlineRegex = None,
                    useQuote = False, useEscape = False, escapeChar = None\<rparr>"

section \<open>The parse engine: \<^verbatim>\<open>createLLParser\<close>\<close>

text \<open>
  A JavaScript symbol has an identity and a description; \<^verbatim>\<open>toString\<close> prints the
  description only.
\<close>

datatype symbol = Symbol (sym_id: nat) (description: string)

definition symbol_toString :: "symbol \<Rightarrow> string" where
  "symbol_toString s = ''Symbol('' @ description s @ '')''"

text \<open>
  \<^verbatim>\<open>type Stack = (symbol | string | ParseError)[]\<close>: the three kinds of entry that
  \<^verbatim>\<open>typeof tos === "symbol"\<close>, \<^verbatim>\<open>typeof tos === "string"\<close> and \<^verbatim>\<open>isParseError(tos)\<close>
  tell apart.
\<close>

datatype entry = Nonterminal symbol | Terminal string | Embedded ParseError

type_synonym Stack = "entry list"

datatype on_error = Stop | Throw | Continue

record ParseOptions =
  onError :: on_error
  debug :: bool

text \<open>
  The default value of the parameter \<^verbatim>\<open>options\<close>.  The field \<^verbatim>\<open>debug\<close> only makes the
  loop print to the console, which is no part of what a call returns.
\<close>

definition default_options :: ParseOptions where
  "default_options = \<lparr>onError = Stop, debug = False\<rparr>"

text \<open>
  A rule receives the token parts, the position and the caller's \<^verbatim>\<open>result\<close> object,
  which it may mutate, and returns a stack fragment: it is a function that also returns
  the new value of \<^verbatim>\<open>result\<close>.  The rule table is a partial map.  A rule that throws,
  does not return, or keeps state of its own is outside the model.
\<close>

type_synonym 'r rule = "string list \<Rightarrow> Position \<Rightarrow> 'r \<Rightarrow> 'r \<times> Stack"

type_synonym 'r rules = "symbol \<Rightarrow> 'r rule option"

text \<open>
  The variables of one \<^verbatim>\<open>parse\<close> call, which are also the fields of the object it
  returns: the contents of the array \<^verbatim>\<open>stack\<close>, \<^verbatim>\<open>errors\<close>, \<^verbatim>\<open>result\<close>, and the returned
  \<^verbatim>\<open>index\<close> (the variable \<^verbatim>\<open>lastIndex\<close> while the loop runs), here \<open>ret_index\<close>.
\<close>

record 'r parse_vars =
  stack :: Stack
  errors :: "ParseError list"
  result :: 'r
  ret_index :: nat

text \<open>
  A call either returns its object, or throws an \<^verbatim>\<open>Error\<close> with a message; in the
  second case the variables are those at the \<^verbatim>\<open>throw\<close>, of which the \<^verbatim>\<open>catch\<close>
  block prints \<^verbatim>\<open>errors\<close> before it throws again.
\<close>

datatype 'r outcome = Returned "'r parse_vars" | Thrown string "'r parse_vars"

fun vars_of :: "'r outcome \<Rightarrow> 'r parse_vars" where
  "vars_of (Returned v) = v"
| "vars_of (Thrown m v) = v"

text \<open>\<^verbatim>\<open>tokens[0]\<close>, which is \<^verbatim>\<open>undefined\<close> when there is no token part.\<close>

definition token0 :: "'a LexedItem_scheme \<Rightarrow> string option" where
  "token0 item = (case tokens item of [] \<Rightarrow> None | t # ts \<Rightarrow> Some t)"

text \<open>How a template literal prints \<^verbatim>\<open>tokens[0]\<close>.\<close>

definition show_token :: "string option \<Rightarrow> string" where
  "show_token t = (case t of None \<Rightarrow> ''undefined'' | Some s \<Rightarrow> s)"

text \<open>The error built at lines 77 to 83.\<close>

definition mismatch :: "string \<Rightarrow> LexedItem \<Rightarrow> ParseError" where
  "mismatch tos item =
     \<lparr>index = index item, line = line item, inlineIndex = inlineIndex item,
      message = ''Expected '' @ [CHR 0x27] @ tos @ [CHR 0x27] @ '' but got ''
                @ [CHR 0x27] @ show_token (token0 item) @ [CHR 0x27] @ ''.'',
      token = token0 item\<rparr>"

text \<open>
  The \<^verbatim>\<open>while\<close> loop of lines 48 to 73: it shifts entries off the stack, replacing a
  symbol by what its rule returns, until the shifted entry \<^verbatim>\<open>tos\<close> is not a symbol
  (\<open>Settled\<close>, with \<open>None\<close> for \<^verbatim>\<open>undefined\<close>) or a symbol has no rule (\<open>No_rule\<close>).
  A grammar may expand for ever (a rule that returns its own symbol), so the loop is a
  partial function: \<open>None\<close> is a loop that does not end.
\<close>

datatype 'r expansion = Settled "entry option" Stack 'r | No_rule symbol Stack 'r

partial_function (option) expand ::
  "'r rules \<Rightarrow> LexedItem \<Rightarrow> Stack \<Rightarrow> 'r \<Rightarrow> 'r expansion option" where
  "expand rules item stk res =
     (case stk of
        [] \<Rightarrow> Some (Settled None [] res)
      | tos # rest \<Rightarrow>
          (case tos of
             Nonterminal s \<Rightarrow>
               (case rules s of
                  None \<Rightarrow> Some (No_rule s rest res)
                | Some rule \<Rightarrow>
                    (let r = rule (tokens item)
                               \<lparr>index = index item, line = line item,
                                inlineIndex = inlineIndex item\<rparr> res
                     in expand rules item (snd r @ rest) (fst r)))
           | Terminal t \<Rightarrow> Some (Settled (Some tos) rest res)
           | Embedded e \<Rightarrow> Some (Settled (Some tos) rest res)))"

declare expand.simps [code]

text \<open>
  The \<^verbatim>\<open>for await\<close> loop of lines 46 to 111 and the \<^verbatim>\<open>return\<close> of line 113, over a
  finite sequence of lexed items.  The two policy chains of the source are kept apart.
\<close>

fun parse_items ::
  "'r rules \<Rightarrow> ParseOptions \<Rightarrow> LexedItem list \<Rightarrow> 'r parse_vars \<Rightarrow> 'r outcome option" where
  "parse_items rules options [] v = Some (Returned v)"
| "parse_items rules options (item # lexed) v =
     (case expand rules item (stack v) (result v) of
        None \<Rightarrow> None
      | Some (No_rule s stk res) \<Rightarrow>
          Some (Thrown (''No rule for '' @ symbol_toString s @ ''.'')
                  (v\<lparr>stack := stk, result := res\<rparr>))
      | Some (Settled tos stk res) \<Rightarrow>
          (let v' = v\<lparr>stack := stk, result := res\<rparr> in
           case tos of
             Some (Terminal t) \<Rightarrow>
               if Some t \<noteq> token0 item then
                 (let error = mismatch t item in
                  if onError options = Stop then
                    Some (Returned (v'\<lparr>errors := errors v' @ [error], ret_index := index item\<rparr>))
                  else if onError options = Throw then
                    Some (Thrown (message error) v')
                  else parse_items rules options lexed (v'\<lparr>ret_index := index item\<rparr>))
               else parse_items rules options lexed (v'\<lparr>ret_index := index item\<rparr>)
           | Some (Embedded error) \<Rightarrow>
               if onError options = Stop then
                 Some (Returned (v'\<lparr>errors := errors v' @ [error], ret_index := index item\<rparr>))
               else if onError options = Throw then
                 Some (Thrown (message error) v')
               else parse_items rules options lexed (v'\<lparr>ret_index := index item\<rparr>)
           | _ \<Rightarrow> parse_items rules options lexed (v'\<lparr>ret_index := index item\<rparr>)))"

text \<open>
  The array that \<^verbatim>\<open>initStack()\<close> returns is an object of the JavaScript heap, which
  \<^verbatim>\<open>parse\<close> changes in place with \<^verbatim>\<open>shift\<close> and \<^verbatim>\<open>unshift\<close>.  The heap of stack arrays
  is a store from addresses to contents with the next free address.  \<^verbatim>\<open>initStack\<close> is a
  function of the caller that runs on this heap and returns an address.
\<close>

type_synonym addr = nat

record heap =
  cells :: "addr \<Rightarrow> Stack"
  next_free :: addr

record 'r engine =
  engine_rules :: "'r rules"
  engine_initStack :: "heap \<Rightarrow> addr \<times> heap"

definition createLLParser :: "'r rules \<Rightarrow> (heap \<Rightarrow> addr \<times> heap) \<Rightarrow> 'r engine" where
  "createLLParser rules initStack = \<lparr>engine_rules = rules, engine_initStack = initStack\<rparr>"

text \<open>
  \<^verbatim>\<open>parse\<close> (lines 30 to 123): the outcome, the address of the stack array, and the heap
  after the call, in which the array holds what is left of the stack.
\<close>

definition parse ::
  "'r engine \<Rightarrow> LexedItem list \<Rightarrow> 'r \<Rightarrow> ParseOptions \<Rightarrow> heap \<Rightarrow> ('r outcome \<times> addr \<times> heap) option" where
  "parse eng lexed res options h =
     (let a = fst (engine_initStack eng h); h1 = snd (engine_initStack eng h) in
      case parse_items (engine_rules eng) options lexed
             \<lparr>stack = cells h1 a, errors = [], result = res, ret_index = 0\<rparr> of
        None \<Rightarrow> None
      | Some out \<Rightarrow> Some (out, a, h1\<lparr>cells := (cells h1)(a := stack (vars_of out))\<rparr>))"

text \<open>Two ways to write \<^verbatim>\<open>initStack\<close>: \<^verbatim>\<open>() => [...]\<close> allocates a new array at
  each call, \<^verbatim>\<open>() => shared\<close> returns the same array every time.\<close>

definition fresh_init :: "Stack \<Rightarrow> heap \<Rightarrow> addr \<times> heap" where
  "fresh_init s0 h =
     (next_free h, h\<lparr>cells := (cells h)(next_free h := s0), next_free := next_free h + 1\<rparr>)"

definition shared_init :: "addr \<Rightarrow> heap \<Rightarrow> addr \<times> heap" where
  "shared_init a h = (a, h)"

text \<open>The outcome of a call alone.\<close>

definition outcome_of :: "('r outcome \<times> addr \<times> heap) option \<Rightarrow> 'r outcome option" where
  "outcome_of r = map_option fst r"

text \<open>The heap after the call, and what the returned array \<^verbatim>\<open>stack\<close> holds in it.\<close>

definition heap_of :: "('r outcome \<times> addr \<times> heap) option \<Rightarrow> heap option" where
  "heap_of r = map_option (\<lambda>x. snd (snd x)) r"

definition stack_array_of :: "('r outcome \<times> addr \<times> heap) option \<Rightarrow> Stack option" where
  "stack_array_of r = map_option (\<lambda>x. cells (snd (snd x)) (fst (snd x))) r"

text \<open>\<^verbatim>\<open>initStack\<close> hands out, on every heap, an array with the contents \<open>s0\<close>.\<close>

definition initStack_gives :: "(heap \<Rightarrow> addr \<times> heap) \<Rightarrow> Stack \<Rightarrow> bool" where
  "initStack_gives initStack s0 = (\<forall>h. cells (snd (initStack h)) (fst (initStack h)) = s0)"

text \<open>
  The grammar of the examples: \<open>sym_S\<close> expands to the terminals \<open>a\<close> and \<open>b\<close>.
  \<open>sym_T\<close> is a second symbol; \<open>T_rules\<close> expands \<open>sym_S\<close> to \<open>sym_T\<close>, which has
  no rule, and \<open>nil_rules\<close> expands \<open>sym_S\<close> to nothing.
\<close>

definition sym_S :: symbol where
  "sym_S = Symbol 0 ''S''"

definition sym_T :: symbol where
  "sym_T = Symbol 1 ''T''"

definition ab_rules :: "'r rules" where
  "ab_rules = [sym_S \<mapsto> (\<lambda>toks pos res. (res, [Terminal ''a'', Terminal ''b'']))]"

definition T_rules :: "'r rules" where
  "T_rules = [sym_S \<mapsto> (\<lambda>toks pos res. (res, [Nonterminal sym_T, Terminal ''a'']))]"

definition nil_rules :: "'r rules" where
  "nil_rules = [sym_S \<mapsto> (\<lambda>toks pos res. (res, []))]"

text \<open>The engine of the examples: these rules, and a fresh array \<open>[S]\<close> at each call.\<close>

abbreviation ab_engine :: "'r engine" where
  "ab_engine \<equiv> createLLParser ab_rules (fresh_init [Nonterminal sym_S])"

definition empty_heap :: heap where
  "empty_heap = \<lparr>cells = (\<lambda>a. []), next_free = 0\<rparr>"

text \<open>A lexed item with one token part, on line 0.\<close>

definition item_at :: "string \<Rightarrow> nat \<Rightarrow> LexedItem" where
  "item_at t i = \<lparr>index = i, line = 0, inlineIndex = i, tokens = [t]\<rparr>"

section \<open>Properties of the lexer\<close>

subsection \<open>Counters and the character loop\<close>

lemma branch_counters:
  "index (fst (branch cfg s c)) = index s"
  "line (fst (branch cfg s c)) = line s"
  "inlineIndex (fst (branch cfg s c)) = inlineIndex s"
  by (simp_all add: branch_def)

lemma lex_char_line:
  "line (fst (lex_char cfg s c)) = (if newline_of cfg c then line s + 1 else line s)"
  using branch_counters(2) [of cfg "s\<lparr>index := index s + 1, inlineIndex := inlineIndex s + 1\<rparr>" c]
  by (simp add: lex_char_def case_prod_beta)

lemma lex_char_inlineIndex:
  "inlineIndex (fst (lex_char cfg s c)) = (if newline_of cfg c then 0 else inlineIndex s + 1)"
  using branch_counters(3) [of cfg "s\<lparr>index := index s + 1, inlineIndex := inlineIndex s + 1\<rparr>" c]
  by (simp add: lex_char_def case_prod_beta)

lemma lex_chunk_line:
  "line (fst (lex_chunk cfg s chunk)) = line s + length (filter (newline_of cfg) chunk)"
proof (induction chunk arbitrary: s)
  case Nil
  show ?case by simp
next
  case (Cons c chunk)
  show ?case
    using Cons.IH [of "fst (lex_char cfg s c)"] lex_char_line [of cfg s c]
    by (simp add: case_prod_beta)
qed

lemma lex_chunk_append:
  "lex_chunk cfg s (xs @ ys) =
     (fst (lex_chunk cfg (fst (lex_chunk cfg s xs)) ys),
      snd (lex_chunk cfg s xs) @ snd (lex_chunk cfg (fst (lex_chunk cfg s xs)) ys))"
  by (induction xs arbitrary: s) (simp_all add: case_prod_beta)

lemma lex_stream_untag:
  "lex_stream cfg s stream = map snd (lex_events cfg s stream)"
  by (induction stream arbitrary: s) (simp_all add: comp_def case_prod_beta)

lemma separator_items_tagged:
  "separator_items (map (Pair Separator_branch) xs @ map (Pair Chunk_end) ys @ evs)
     = xs @ separator_items evs"
  by (simp add: separator_items_def filter_map comp_def)

lemma separator_items_unsplit:
  "separator_items (lex_events cfg s stream) = snd (lex_chunk cfg s (concat stream))"
proof (induction stream arbitrary: s)
  case Nil
  show ?case by (simp add: separator_items_def)
next
  case (Cons chunk stream)
  show ?case
    by (simp add: separator_items_tagged Cons.IH lex_chunk_append case_prod_beta)
qed

lemma unsplit_output:
  "createSimpleLexer cfg [concat stream]
     = separator_items (lex_events cfg init_state stream)
       @ flush (state_after cfg init_state (concat stream))"
  by (simp add: createSimpleLexer_def separator_items_unsplit state_after_def case_prod_beta)

text \<open>The definitions that a run on a concrete stream unfolds.\<close>

lemmas lexer_eval = createSimpleLexer_def init_state_def lex_char_def branch_def flush_def
  newline_of_def defaultNewlineRegex_def escape_of_def

subsection \<open>Chunk boundaries\<close>

text \<open>
  Claim C2.  For every character stream and every way of splitting it into chunks, the
  lexer emits the same items, texts and positions alike, apart from the flush of a
  pending non-empty token at the end of each chunk.  The items the generator yields are
  those of \<open>lex_events\<close> without their tags.  The output for the unsplit stream is
  the separator-branch items of any splitting, followed by the flush at the end of the
  stream; and two splittings of the same characters have the same separator-branch items.
  So a chunk boundary shows in the output only as the chunk-end item yielded there.
\<close>

theorem chunk_boundaries_only_add_flushes:
  "createSimpleLexer cfg stream = map snd (lex_events cfg init_state stream)
   \<and> createSimpleLexer cfg [concat stream]
       = separator_items (lex_events cfg init_state stream)
         @ flush (state_after cfg init_state (concat stream))
   \<and> (concat stream = concat stream' \<longrightarrow>
        separator_items (lex_events cfg init_state stream)
          = separator_items (lex_events cfg init_state stream'))"
proof -
  have "createSimpleLexer cfg stream = map snd (lex_events cfg init_state stream)"
    by (simp add: createSimpleLexer_def lex_stream_untag)
  moreover have "concat stream = concat stream' \<longrightarrow>
        separator_items (lex_events cfg init_state stream)
          = separator_items (lex_events cfg init_state stream')"
    by (simp add: separator_items_unsplit)
  ultimately show ?thesis
    using unsplit_output [of cfg stream] by blast
qed

theorem chunk_boundaries_only_add_flushes_witness:
  "concat [''a'', ''b,c''] = concat [''ab,c'']
   \<and> separator_items (lex_events plain_config init_state [''a'', ''b,c''])
       = separator_items (lex_events plain_config init_state [''ab,c''])
   \<and> separator_items (lex_events plain_config init_state [''ab,c''])
       = [\<lparr>index = 2, line = 0, inlineIndex = 2, tokens = [''ab'']\<rparr>,
          \<lparr>index = 3, line = 0, inlineIndex = 3, tokens = ['','']\<rparr>]
   \<and> createSimpleLexer plain_config [''a'', ''b,c'']
       = map snd (lex_events plain_config init_state [''a'', ''b,c''])"
proof -
  have "separator_items (lex_events plain_config init_state [''ab,c''])
       = [\<lparr>index = 2, line = 0, inlineIndex = 2, tokens = [''ab'']\<rparr>,
          \<lparr>index = 3, line = 0, inlineIndex = 3, tokens = ['','']\<rparr>]"
    by (simp add: lexer_eval separator_items_def plain_config_def cong: prod.case_cong_weak)
  then show ?thesis
    using chunk_boundaries_only_add_flushes
      [where stream = "[''a'', ''b,c'']" and stream' = "[''ab,c'']" and cfg = plain_config]
    by simp
qed

text \<open>
  Claim C10.  The flush at the end of a chunk does not clear the token: the loop goes on
  from the state the chunk ended in.  For the stream of the two chunks \<open>a\<close> and \<open>b\<close>
  the text \<open>a\<close> is emitted at the end of the first chunk and again as the beginning of
  \<open>ab\<close>, so the emitted texts together are not the characters of the stream.
\<close>

theorem chunk_end_flush_keeps_token:
  "lex_stream cfg s (chunk # stream)
     = snd (lex_chunk cfg s chunk) @ flush (state_after cfg s chunk)
       @ lex_stream cfg (state_after cfg s chunk) stream
   \<and> createSimpleLexer plain_config [''a'', ''b'']
       = [\<lparr>index = 1, line = 0, inlineIndex = 1, tokens = [''a'']\<rparr>,
          \<lparr>index = 2, line = 0, inlineIndex = 2, tokens = [''ab'']\<rparr>]
   \<and> concat (concat (map tokens (createSimpleLexer plain_config [''a'', ''b''])))
       \<noteq> concat [''a'', ''b'']"
proof -
  have "lex_stream cfg s (chunk # stream)
     = snd (lex_chunk cfg s chunk) @ flush (state_after cfg s chunk)
       @ lex_stream cfg (state_after cfg s chunk) stream"
    by (simp add: state_after_def case_prod_beta)
  moreover have ex: "createSimpleLexer plain_config [''a'', ''b'']
       = [\<lparr>index = 1, line = 0, inlineIndex = 1, tokens = [''a'']\<rparr>,
          \<lparr>index = 2, line = 0, inlineIndex = 2, tokens = [''ab'']\<rparr>]"
    by (simp add: lexer_eval plain_config_def cong: prod.case_cong_weak)
  moreover have "concat (concat (map tokens (createSimpleLexer plain_config [''a'', ''b''])))
       \<noteq> concat [''a'', ''b'']"
    by (simp add: ex)
  ultimately show ?thesis by blast
qed

subsection \<open>Newlines\<close>

text \<open>
  Claim C6.  Whatever the state and the configuration, and so whichever branch handles
  the character, a character that matches the newline pattern adds exactly one to
  \<open>line\<close> and leaves \<open>inlineIndex\<close> at 0; any other character leaves \<open>line\<close> as it is
  and adds one to \<open>inlineIndex\<close>.  Over a run of characters \<open>line\<close> grows by the number
  of newline characters in it.
\<close>

theorem newline_counted_once:
  "line (fst (lex_char cfg s c)) = (if newline_of cfg c then line s + 1 else line s)
   \<and> inlineIndex (fst (lex_char cfg s c)) = (if newline_of cfg c then 0 else inlineIndex s + 1)
   \<and> line (state_after cfg s chunk) = line s + length (filter (newline_of cfg) chunk)"
proof (intro conjI)
  show "line (fst (lex_char cfg s c)) = (if newline_of cfg c then line s + 1 else line s)"
    by (rule lex_char_line)
  show "inlineIndex (fst (lex_char cfg s c))
          = (if newline_of cfg c then 0 else inlineIndex s + 1)"
    by (rule lex_char_inlineIndex)
  show "line (state_after cfg s chunk) = line s + length (filter (newline_of cfg) chunk)"
    unfolding state_after_def by (rule lex_chunk_line)
qed

subsection \<open>Escaping\<close>

lemma escaped_pair:
  assumes "useEscape cfg" and "\<not> isEscaping s" and "escape_of cfg = [e]"
  shows "tokenBuf (fst (lex_chunk cfg s [e, c])) = tokenBuf s @ [c]"
    and "snd (lex_chunk cfg s [e, c]) = []"
    and "isQuoting (fst (lex_chunk cfg s [e, c])) = isQuoting s"
    and "\<not> isEscaping (fst (lex_chunk cfg s [e, c]))"
  using assms by (simp_all add: lex_char_def branch_def case_prod_beta)

lemma escape_example:
  "createSimpleLexer escape_config [ [CHR ''a'', CHR 0x5C, CHR '','', CHR ''b''] ]
     = [\<lparr>index = 4, line = 0, inlineIndex = 4, tokens = [''a,b'']\<rparr>]"
  by (simp add: lexer_eval escape_config_def cong: prod.case_cong_weak)

text \<open>
  Claim C7.  With \<^verbatim>\<open>useEscape\<close>, when the escape character \<open>e\<close> is read in a state
  that is not escaping, the character \<open>c\<close> after it, whatever it is, is appended to the
  token as it stands: nothing is yielded, and the quoting and escaping flags are as
  before.  With the comma as separator and the backslash as escape character, the one
  chunk \<open>a\,b\<close> gives the single item \<open>a,b\<close>.
\<close>

theorem escaped_char_verbatim:
  assumes "useEscape cfg" and "\<not> isEscaping s" and "escape_of cfg = [e]"
  shows "tokenBuf (state_after cfg s [e, c]) = tokenBuf s @ [c]
         \<and> snd (lex_chunk cfg s [e, c]) = []
         \<and> isQuoting (state_after cfg s [e, c]) = isQuoting s
         \<and> \<not> isEscaping (state_after cfg s [e, c])
         \<and> createSimpleLexer escape_config [ [CHR ''a'', CHR 0x5C, CHR '','', CHR ''b''] ]
             = [\<lparr>index = 4, line = 0, inlineIndex = 4, tokens = [''a,b'']\<rparr>]"
  unfolding state_after_def using escaped_pair [OF assms] escape_example by blast

theorem escaped_char_verbatim_witness:
  "useEscape escape_config \<and> \<not> isEscaping init_state \<and> escape_of escape_config = [CHR 0x5C]
   \<and> tokenBuf (state_after escape_config init_state [CHR 0x5C, CHR '','']) = '',''
   \<and> snd (lex_chunk escape_config init_state [CHR 0x5C, CHR '','']) = []"
  using escaped_char_verbatim [of escape_config init_state "CHR 0x5C" "CHR '',''"]
  by (simp add: escape_config_def init_state_def escape_of_def)

subsection \<open>Quoting\<close>

lemma lex_char_isQuoting:
  "\<not> isQuoting s \<Longrightarrow> \<not> isQuoting (fst (lex_char cfg s c))"
  by (simp add: lex_char_def branch_def case_prod_beta)

lemma lex_chunk_isQuoting:
  "\<not> isQuoting s \<Longrightarrow> \<not> isQuoting (fst (lex_chunk cfg s chunk))"
proof (induction chunk arbitrary: s)
  case Nil
  then show ?case by simp
next
  case (Cons c chunk)
  from Cons.prems have "\<not> isQuoting (fst (lex_char cfg s c))"
    by (rule lex_char_isQuoting)
  then have "\<not> isQuoting (fst (lex_chunk cfg (fst (lex_char cfg s c)) chunk))"
    by (rule Cons.IH)
  then show ?case by (simp add: case_prod_beta)
qed

text \<open>
  Claim C3.  The claim is that a double quote switches quoting on and off, so that the
  chunk \<open>"ab"c\<close> gives the text \<open>ab"c\<close> and a separator between quotes is literal text.
  No assignment in the source sets \<^verbatim>\<open>isQuoting\<close> to true: from the initial state the
  lexer is never quoting.  With \<^verbatim>\<open>useQuote\<close> and a separator for comma and white space,
  the chunk \<open>"ab"c\<close> gives the text \<open>"ab"c\<close>, the opening quote included, and the chunk
  \<open>"a,b"\<close> is split at its comma.
\<close>

theorem quote_never_opens:
  "\<not> isQuoting (state_after cfg init_state chunk)
   \<and> createSimpleLexer quote_config [ [CHR 0x22, CHR ''a'', CHR ''b'', CHR 0x22, CHR ''c''] ]
       = [\<lparr>index = 5, line = 0, inlineIndex = 5,
           tokens = [ [CHR 0x22, CHR ''a'', CHR ''b'', CHR 0x22, CHR ''c''] ]\<rparr>]
   \<and> createSimpleLexer quote_config [ [CHR 0x22, CHR ''a'', CHR '','', CHR ''b'', CHR 0x22] ]
       = [\<lparr>index = 2, line = 0, inlineIndex = 2, tokens = [ [CHR 0x22, CHR ''a''] ]\<rparr>,
          \<lparr>index = 3, line = 0, inlineIndex = 3, tokens = ['','']\<rparr>,
          \<lparr>index = 5, line = 0, inlineIndex = 5, tokens = [ [CHR ''b'', CHR 0x22] ]\<rparr>]"
proof -
  have "\<not> isQuoting (state_after cfg init_state chunk)"
    unfolding state_after_def by (rule lex_chunk_isQuoting) (simp add: init_state_def)
  then show ?thesis
    by (simp add: lexer_eval quote_config_def comma_or_space_def cong: prod.case_cong_weak)
qed

section \<open>Properties of the parse engine\<close>

text \<open>The definitions that a run on a concrete input unfolds.\<close>

lemmas parser_eval = parse_def createLLParser_def fresh_init_def ab_rules_def
  item_at_def sym_S_def mismatch_def token0_def show_token_def expand.simps symbol_toString_def
  outcome_of_def empty_heap_def

subsection \<open>The error policies\<close>

lemma continue_keeps_errors:
  "onError options = Continue \<Longrightarrow> parse_items rules options lexed v = Some out
     \<Longrightarrow> errors (vars_of out) = errors v"
proof (induction lexed arbitrary: v)
  case Nil
  then show ?case by auto
next
  case (Cons it lexed)
  then show ?case
    by (auto simp: Let_def split: option.splits expansion.splits entry.splits if_splits)
qed

text \<open>
  Claim C1.  The claim is that under \<^verbatim>\<open>onError: "continue"\<close> every recoverable error is
  recorded in the returned list, which has length 1 for the grammar \<open>S \<rightarrow> a b\<close> on the
  input \<open>a\<close>, \<open>x\<close> and more input.  Only the \<^verbatim>\<open>"stop"\<close> branch pushes to \<^verbatim>\<open>errors\<close>:
  on the input \<open>a\<close>, \<open>x\<close>, \<open>b\<close> the call runs to the end of the input and returns an
  empty list of errors.
\<close>

theorem continue_records_no_error:
  "outcome_of (parse ab_engine [item_at ''a'' 1, item_at ''x'' 2, item_at ''b'' 3] res
                 \<lparr>onError = Continue, debug = d\<rparr> h)
     = Some (Returned \<lparr>stack = [], errors = [], result = res, ret_index = 3\<rparr>)"
  by (simp add: parser_eval Let_def)

text \<open>
  Claim C4, as the claim states it: one error with the message and the remaining stack
  \<open>["b"]\<close>.  This fails: the entry \<open>b\<close> is shifted off before it is compared.
\<close>

theorem stop_remaining_stack_counterexample:
  "\<not> (case outcome_of (parse (ab_engine :: unit engine) [item_at ''a'' 1, item_at ''x'' 2] ()
                         \<lparr>onError = Stop, debug = False\<rparr> empty_heap) of
        Some (Returned v) \<Rightarrow>
          map message (errors v) = [''Expected 'b' but got 'x'.'']
          \<and> stack v = [Terminal ''b'']
      | _ \<Rightarrow> False)"
  by (simp add: parser_eval Let_def)

text \<open>
  Claim C4, amended.  For the grammar \<open>S \<rightarrow> a b\<close> with the initial stack \<open>[S]\<close>, the
  input \<open>a\<close>, \<open>x\<close> at any positions and \<^verbatim>\<open>onError: "stop"\<close>, the call returns exactly one
  error, with the message \<open>Expected 'b' but got 'x'.\<close> at the position of \<open>x\<close>, and the
  remaining stack is empty: the mismatched entry \<open>b\<close> has been shifted off.  The array
  that \<^verbatim>\<open>initStack\<close> returned is empty after the call.
\<close>

theorem stop_returns_error_and_empty_stack:
  "outcome_of (parse ab_engine
       [\<lparr>index = i, line = l, inlineIndex = c, tokens = [''a'']\<rparr>,
        \<lparr>index = i', line = l', inlineIndex = c', tokens = [''x'']\<rparr>]
       res \<lparr>onError = Stop, debug = d\<rparr> h)
     = Some (Returned
         \<lparr>stack = [],
          errors = [\<lparr>index = i', line = l', inlineIndex = c',
                     message = ''Expected 'b' but got 'x'.'', token = Some ''x''\<rparr>],
          result = res, ret_index = i'\<rparr>)
   \<and> stack_array_of (parse ab_engine
       [\<lparr>index = i, line = l, inlineIndex = c, tokens = [''a'']\<rparr>,
        \<lparr>index = i', line = l', inlineIndex = c', tokens = [''x'']\<rparr>]
       res \<lparr>onError = Stop, debug = d\<rparr> h) = Some []"
  by (simp add: parser_eval stack_array_of_def Let_def)

subsection \<open>State between calls\<close>

lemma fresh_init_gives: "initStack_gives (fresh_init s0) s0"
  by (simp add: initStack_gives_def fresh_init_def)

text \<open>
  Claim C5.  When \<^verbatim>\<open>initStack\<close> hands out an array with the same contents at each call,
  as one that builds a fresh array does, then the outcome of \<^verbatim>\<open>parse\<close> for given
  rules, lexed input, \<^verbatim>\<open>result\<close> and options is the same on every heap, and so the same
  for a second call as for the first: the returned stack, errors, result and index, or
  the failure thrown, or that the call does not return.
\<close>

theorem parse_no_hidden_state:
  assumes "initStack_gives initStack s0"
  shows "outcome_of (parse (createLLParser rules initStack) lexed res options h)
         = outcome_of (parse (createLLParser rules initStack) lexed res options h')"
proof -
  have "outcome_of (parse (createLLParser rules initStack) lexed res options k)
        = parse_items rules options lexed \<lparr>stack = s0, errors = [], result = res, ret_index = 0\<rparr>"
    for k
    using assms
    by (simp add: parse_def createLLParser_def outcome_of_def initStack_gives_def Let_def
        split: option.splits)
  then show ?thesis by simp
qed

theorem parse_no_hidden_state_witness:
  "initStack_gives (fresh_init [Nonterminal sym_S]) [Nonterminal sym_S]
   \<and> heap_of (parse (ab_engine :: unit engine) [item_at ''a'' 1, item_at ''x'' 2] ()
                default_options empty_heap)
       = Some \<lparr>cells = (\<lambda>a. []), next_free = 1\<rparr>
   \<and> outcome_of (parse (ab_engine :: unit engine) [item_at ''a'' 1, item_at ''x'' 2] ()
                   default_options empty_heap)
       = outcome_of (parse ab_engine [item_at ''a'' 1, item_at ''x'' 2] () default_options
                       \<lparr>cells = (\<lambda>a. []), next_free = 1\<rparr>)"
proof -
  have g: "initStack_gives (fresh_init [Nonterminal sym_S]) [Nonterminal sym_S]"
    by (rule fresh_init_gives)
  have "heap_of (parse (ab_engine :: unit engine) [item_at ''a'' 1, item_at ''x'' 2] ()
                   default_options empty_heap)
       = Some \<lparr>cells = (\<lambda>a. []), next_free = 1\<rparr>"
    by (simp add: parser_eval heap_of_def default_options_def Let_def fun_eq_iff)
  with g parse_no_hidden_state [OF g, of "ab_rules :: unit rules"
      "[item_at ''a'' 1, item_at ''x'' 2]" "()" default_options empty_heap
      "\<lparr>cells = (\<lambda>a. []), next_free = 1\<rparr>"]
  show ?thesis by simp
qed

text \<open>
  The hypothesis on \<^verbatim>\<open>initStack\<close> is needed.  When it returns one shared array, the
  first call leaves that array empty and a second call on the same input has another
  outcome.
\<close>

lemma shared_stack_second_call_differs:
  "heap_of (parse (createLLParser (ab_rules :: unit rules) (shared_init 0))
                 [item_at ''a'' 1, item_at ''x'' 2] () default_options
                 \<lparr>cells = (\<lambda>a. [Nonterminal sym_S]), next_free = 1\<rparr>)
       = Some \<lparr>cells = (\<lambda>a. [Nonterminal sym_S])(0 := []), next_free = 1\<rparr>
   \<and> outcome_of (parse (createLLParser (ab_rules :: unit rules) (shared_init 0))
                 [item_at ''a'' 1, item_at ''x'' 2] () default_options
                 \<lparr>cells = (\<lambda>a. [Nonterminal sym_S]), next_free = 1\<rparr>)
     \<noteq> outcome_of (parse (createLLParser (ab_rules :: unit rules) (shared_init 0))
                 [item_at ''a'' 1, item_at ''x'' 2] () default_options
                 \<lparr>cells = (\<lambda>a. [Nonterminal sym_S])(0 := []), next_free = 1\<rparr>)"
  by (simp add: parser_eval heap_of_def shared_init_def default_options_def Let_def)

subsection \<open>A symbol without a rule\<close>

text \<open>
  Claim C8.  When an item is processed and the front of the stack is a symbol \<open>s\<close> with
  no entry in the rule table, the call throws \<open>No rule for s.\<close>, whatever the policy
  \<^verbatim>\<open>onError\<close> is, and the list of errors is as it was.  The same holds when the
  expansion of the front of the stack comes to such a symbol.
\<close>

theorem missing_rule_always_throws:
  "(rules s = None \<longrightarrow>
      parse_items rules options (it # lexed) (v\<lparr>stack := Nonterminal s # rest\<rparr>)
        = Some (Thrown (''No rule for '' @ symbol_toString s @ ''.'') (v\<lparr>stack := rest\<rparr>)))
   \<and> (expand rules it (stack v) (result v) = Some (No_rule s stk res) \<longrightarrow>
      parse_items rules options (it # lexed) v
        = Some (Thrown (''No rule for '' @ symbol_toString s @ ''.'')
                  (v\<lparr>stack := stk, result := res\<rparr>)))"
proof (intro conjI impI)
  assume "rules s = None"
  then have "expand rules it (Nonterminal s # rest) (result v)
               = Some (No_rule s rest (result v))"
    by (simp add: expand.simps)
  then show "parse_items rules options (it # lexed) (v\<lparr>stack := Nonterminal s # rest\<rparr>)
        = Some (Thrown (''No rule for '' @ symbol_toString s @ ''.'') (v\<lparr>stack := rest\<rparr>))"
    by simp
next
  assume "expand rules it (stack v) (result v) = Some (No_rule s stk res)"
  then show "parse_items rules options (it # lexed) v
        = Some (Thrown (''No rule for '' @ symbol_toString s @ ''.'')
                  (v\<lparr>stack := stk, result := res\<rparr>))"
    by simp
qed

theorem missing_rule_always_throws_witness:
  "(ab_rules :: unit rules) sym_T = None
   \<and> parse_items (ab_rules :: unit rules) \<lparr>onError = Continue, debug = False\<rparr> [item_at ''a'' 1]
        \<lparr>stack = [Nonterminal sym_T, Terminal ''a''], errors = [], result = (), ret_index = 0\<rparr>
       = Some (Thrown ''No rule for Symbol(T).''
           \<lparr>stack = [Terminal ''a''], errors = [], result = (), ret_index = 0\<rparr>)
   \<and> expand (T_rules :: unit rules) (item_at ''a'' 1) [Nonterminal sym_S] ()
       = Some (No_rule sym_T [Terminal ''a''] ())
   \<and> parse_items (T_rules :: unit rules) \<lparr>onError = Stop, debug = False\<rparr> [item_at ''a'' 1]
        \<lparr>stack = [Nonterminal sym_S], errors = [], result = (), ret_index = 0\<rparr>
       = Some (Thrown ''No rule for Symbol(T).''
           \<lparr>stack = [Terminal ''a''], errors = [], result = (), ret_index = 0\<rparr>)"
proof -
  have n: "(ab_rules :: unit rules) sym_T = None"
    by (simp add: ab_rules_def sym_S_def sym_T_def)
  have e: "expand (T_rules :: unit rules) (item_at ''a'' 1) [Nonterminal sym_S] ()
             = Some (No_rule sym_T [Terminal ''a''] ())"
    by (simp add: T_rules_def sym_S_def sym_T_def expand.simps)
  from n e
    missing_rule_always_throws [where rules = "ab_rules :: unit rules" and s = sym_T
      and options = "\<lparr>onError = Continue, debug = False\<rparr>" and it = "item_at ''a'' 1"
      and lexed = "[]" and v = "\<lparr>stack = [], errors = [], result = (), ret_index = 0\<rparr>"
      and rest = "[Terminal ''a'']"]
    missing_rule_always_throws [where rules = "T_rules :: unit rules" and s = sym_T
      and options = "\<lparr>onError = Stop, debug = False\<rparr>" and it = "item_at ''a'' 1"
      and lexed = "[]"
      and v = "\<lparr>stack = [Nonterminal sym_S], errors = [], result = (), ret_index = 0\<rparr>"
      and stk = "[Terminal ''a'']" and res = "()"]
  show ?thesis by (simp add: symbol_toString_def sym_T_def)
qed

subsection \<open>The empty stack\<close>

lemma empty_stack_all_noop:
  "parse_items rules options lexed \<lparr>stack = [], errors = es, result = r, ret_index = i\<rparr>
     = Some (Returned \<lparr>stack = [], errors = es, result = r,
          ret_index = (if lexed = [] then i else index (last lexed))\<rparr>)"
  by (induction lexed arbitrary: i) (simp_all add: expand.simps)

text \<open>
  Claim C9.  An item processed while the stack is empty changes nothing but the last
  index: nothing is compared, no error is recorded and the loop goes on with the next
  item, under every policy.  The same holds when the expansion leaves the stack empty
  and the shifted entry undefined.  So from an empty stack the call runs to the end of
  the input and returns.
\<close>

theorem empty_stack_item_is_noop:
  "parse_items rules options (it # lexed) \<lparr>stack = [], errors = es, result = r, ret_index = i\<rparr>
     = parse_items rules options lexed \<lparr>stack = [], errors = es, result = r, ret_index = index it\<rparr>
   \<and> (expand rules it stk r = Some (Settled None stk' r') \<longrightarrow>
        parse_items rules options (it # lexed)
            \<lparr>stack = stk, errors = es, result = r, ret_index = i\<rparr>
          = parse_items rules options lexed
              \<lparr>stack = stk', errors = es, result = r', ret_index = index it\<rparr>)
   \<and> parse_items rules options lexed \<lparr>stack = [], errors = es, result = r, ret_index = i\<rparr>
       = Some (Returned \<lparr>stack = [], errors = es, result = r,
            ret_index = (if lexed = [] then i else index (last lexed))\<rparr>)"
proof (intro conjI impI)
  have "expand rules it [] r = Some (Settled None [] r)"
    by (simp add: expand.simps)
  then show "parse_items rules options (it # lexed)
                 \<lparr>stack = [], errors = es, result = r, ret_index = i\<rparr>
     = parse_items rules options lexed
         \<lparr>stack = [], errors = es, result = r, ret_index = index it\<rparr>"
    by simp
next
  assume "expand rules it stk r = Some (Settled None stk' r')"
  then show "parse_items rules options (it # lexed)
            \<lparr>stack = stk, errors = es, result = r, ret_index = i\<rparr>
          = parse_items rules options lexed
              \<lparr>stack = stk', errors = es, result = r', ret_index = index it\<rparr>"
    by simp
next
  show "parse_items rules options lexed \<lparr>stack = [], errors = es, result = r, ret_index = i\<rparr>
       = Some (Returned \<lparr>stack = [], errors = es, result = r,
            ret_index = (if lexed = [] then i else index (last lexed))\<rparr>)"
    by (rule empty_stack_all_noop)
qed

theorem empty_stack_item_is_noop_witness:
  "expand (nil_rules :: unit rules) (item_at ''a'' 1) [Nonterminal sym_S] ()
     = Some (Settled None [] ())
   \<and> parse_items (nil_rules :: unit rules) default_options [item_at ''a'' 1, item_at ''b'' 2]
        \<lparr>stack = [Nonterminal sym_S], errors = [], result = (), ret_index = 0\<rparr>
       = Some (Returned \<lparr>stack = [], errors = [], result = (), ret_index = 2\<rparr>)"
proof -
  have e: "expand (nil_rules :: unit rules) (item_at ''a'' 1) [Nonterminal sym_S] ()
             = Some (Settled None [] ())"
    by (simp add: nil_rules_def sym_S_def expand.simps)
  from e
    empty_stack_item_is_noop [where rules = "nil_rules :: unit rules" and it = "item_at ''a'' 1"
      and stk = "[Nonterminal sym_S]" and r = "()" and stk' = "[]" and r' = "()"
      and options = default_options and lexed = "[item_at ''b'' 2]" and es = "[]" and i = 0]
    empty_stack_item_is_noop [where rules = "nil_rules :: unit rules" and it = "item_at ''b'' 2"
      and options = default_options and lexed = "[]" and es = "[]" and r = "()" and i = 1]
  show ?thesis by (simp add: item_at_def)
qed

end
